theory Spec2Isabelle
  imports Complex_Main
begin

section \<open>Numbers, errors and arrays of sampling.py\<close>

text \<open>
  The module \<open>src/src/sampling.py\<close> computes with numpy float64 arrays. A float is
  modelled by \<open>fval\<close>: a finite value, carried by an exact real (rounding to 53 bits and
  overflow are not modelled, and zero carries no sign), or one of the three special values
  that numpy's division produces instead of raising: \<open>0/0\<close> is \<open>NaN\<close>, \<open>x/0\<close> is an
  infinity. numpy only warns at these operations; the default error state is modelled.
  The functions \<open>SampleAlongLine\<close> and \<open>CalculateTimeOfFlight\<close> compute on these values
  without rounding and take arrays by value; \<open>SampleAlongLine_fl\<close> and
  \<open>CalculateTimeOfFlight_fl\<close>, further down, round every result and keep arrays in memory.
\<close>

datatype fval = Fin real | PInf | NInf | NaN

text \<open>The exceptions that the three functions can raise.\<close>

datatype error =
    AssertionError
  | ValueError
  | IndexError
  | TypeError
  | MemoryError
  | UndefinedCast

text \<open>
  \<open>UndefinedCast\<close> is not a Python exception: it stands for \<open>astype(int)\<close> applied to a
  NaN or an infinity, whose result depends on the platform. \<open>MemoryError\<close> is raised when an
  array cannot be allocated; only the functions in floating point further down take the
  limit of the memory into account.
\<close>

fun sign_of :: "fval \<Rightarrow> real" where
  "sign_of (Fin a) = sgn a"
| "sign_of PInf = 1"
| "sign_of NInf = - 1"
| "sign_of NaN = 0"

definition inf_of_sign :: "real \<Rightarrow> fval" where
  "inf_of_sign s = (if 0 < s then PInf else if s < 0 then NInf else NaN)"

fun fadd :: "fval \<Rightarrow> fval \<Rightarrow> fval" where
  "fadd (Fin a) (Fin b) = Fin (a + b)"
| "fadd NaN _ = NaN"
| "fadd _ NaN = NaN"
| "fadd PInf NInf = NaN"
| "fadd NInf PInf = NaN"
| "fadd PInf _ = PInf"
| "fadd _ PInf = PInf"
| "fadd NInf _ = NInf"
| "fadd _ NInf = NInf"

fun fmul :: "fval \<Rightarrow> fval \<Rightarrow> fval" where
  "fmul (Fin a) (Fin b) = Fin (a * b)"
| "fmul NaN _ = NaN"
| "fmul _ NaN = NaN"
| "fmul x y = inf_of_sign (sign_of x * sign_of y)"

fun fdiv :: "fval \<Rightarrow> fval \<Rightarrow> fval" where
  "fdiv (Fin a) (Fin b) = (if b \<noteq> 0 then Fin (a / b) else inf_of_sign (sgn a))"
| "fdiv NaN _ = NaN"
| "fdiv _ NaN = NaN"
| "fdiv (Fin a) _ = Fin 0"
| "fdiv x (Fin b) = inf_of_sign (sign_of x * (if 0 \<le> b then 1 else - 1))"
| "fdiv _ _ = NaN"

text \<open>\<open>ndarray.sum()\<close> of a one-dimensional array; the empty sum is \<open>0.0\<close>.\<close>

fun fsum :: "fval list \<Rightarrow> fval" where
  "fsum [] = Fin 0"
| "fsum (x # xs) = fadd x (fsum xs)"

text \<open>\<open>ndarray.mean()\<close>: the sum divided by the number of elements, \<open>NaN\<close> when empty.\<close>

definition mean :: "real list \<Rightarrow> fval" where
  "mean xs = fdiv (Fin (sum_list xs)) (Fin (real (length xs)))"

text \<open>\<open>np.linalg.norm\<close> of a one-dimensional array: the Euclidean norm.\<close>

definition linalg_norm :: "real list \<Rightarrow> real" where
  "linalg_norm v = sqrt (sum_list (map (\<lambda>x. x * x) v))"

text \<open>\<open>np.round\<close> rounds to the nearest integer, a tie to the even neighbour.\<close>

definition np_round :: "real \<Rightarrow> int" where
  "np_round x =
     (let f = \<lfloor>x\<rfloor>; d = x - of_int f
      in if d < 1 / 2 then f
         else if 1 / 2 < d then f + 1
         else if even f then f else f + 1)"

text \<open>\<open>np.round(a).astype(int)\<close> of one entry.\<close>

fun astype_int :: "fval \<Rightarrow> int option" where
  "astype_int (Fin x) = Some (np_round x)"
| "astype_int _ = None"

text \<open>
  \<open>np.linspace(start, stop, num)\<close> for \<open>num \<ge> 0\<close>, as numpy computes it: the integers
  \<open>0 .. num - 1\<close> scaled by \<open>(stop - start) / (num - 1)\<close> (by \<open>stop - start\<close> when
  \<open>num \<le> 1\<close>), shifted by \<open>start\<close>, and the last entry overwritten with \<open>stop\<close> when
  \<open>num > 1\<close>.
\<close>

definition linspace :: "real \<Rightarrow> real \<Rightarrow> nat \<Rightarrow> real list" where
  "linspace start stop num =
     (let dv = int num - 1;
          delta = stop - start;
          y = map real [0..<num];
          y1 = (if 0 < dv then map (\<lambda>i. i * (delta / real_of_int dv)) y
                else map (\<lambda>i. i * delta) y);
          y2 = map (\<lambda>v. v + start) y1
      in if 1 < num then y2[num - 1 := stop] else y2)"

text \<open>
  Elementwise binary operation on two one-dimensional arrays with numpy's broadcasting:
  equal lengths pair up, a length-one array is stretched, any other pair of lengths is an
  error.
\<close>

definition broadcast2 :: "('a \<Rightarrow> 'b \<Rightarrow> 'c) \<Rightarrow> 'a list \<Rightarrow> 'b list \<Rightarrow> 'c list option" where
  "broadcast2 f xs ys =
     (if length xs = length ys then Some (map2 f xs ys)
      else if length xs = 1 then Some (map (f (hd xs)) ys)
      else if length ys = 1 then Some (map (\<lambda>x. f x (hd ys)) xs)
      else None)"

text \<open>
  The speed map is an n-dimensional array: its shape and its entry at each index vector
  within the shape.
\<close>

record speed_map =
  shape :: "nat list"
  entry :: "nat list \<Rightarrow> real"

text \<open>
  An integer index on an axis of extent \<open>n\<close>: \<open>0 .. n - 1\<close> as it stands, \<open>- n .. - 1\<close>
  counted from the end, anything else is out of range.
\<close>

definition axis_index :: "nat \<Rightarrow> int \<Rightarrow> nat option" where
  "axis_index n i =
     (if 0 \<le> i \<and> i < int n then Some (nat i)
      else if - int n \<le> i \<and> i < 0 then Some (nat (i + int n))
      else None)"

text \<open>
  \<open>speed_map[*samples]\<close>: one index array per axis, so one entry per sample; any index out
  of range raises IndexError (\<open>None\<close>).
\<close>

definition index_arrays :: "speed_map \<Rightarrow> int list list \<Rightarrow> real list option" where
  "index_arrays sm samples =
     those (map (\<lambda>p. map_option (entry sm) (those (map2 axis_index (shape sm) p))) samples)"

section \<open>The three functions\<close>

text \<open>
  \<open>SampleAlongLine\<close> divides \<open>direction\<close> in place, so the model returns the contents of
  the caller's \<open>direction\<close> array after the call together with the outcome. The returned
  array has shape \<open>(D, num_steps)\<close>; it is given by the list of its columns, column \<open>n\<close>
  being \<open>origin + n*step_size*direction\<close>. \<open>np.concatenate\<close> raises ValueError on an empty
  list, and so does a sum of arrays that do not broadcast.
\<close>

definition SampleAlongLine ::
  "real list \<Rightarrow> real list \<Rightarrow> real \<Rightarrow> int \<Rightarrow> fval list \<times> (error + fval list list)" where
  "SampleAlongLine origin direction step_size num_steps =
     (let direction' = map (\<lambda>d. fdiv (Fin d) (Fin (linalg_norm direction))) direction;
          locations = map (\<lambda>n. broadcast2
                               (\<lambda>og d. fadd (Fin og) (fmul (Fin (real n * step_size)) d))
                               origin direction')
                          [0..<nat num_steps]
      in (direction',
          case those locations of
            None \<Rightarrow> Inl ValueError
          | Some locs \<Rightarrow> if locs = [] then Inl ValueError else Inr locs))"

text \<open>
  One term of the list comprehension of \<open>IsInMapRegion\<close>:
  \<open>pt >= ml[0] and pt <= ml[1]\<close>, where \<open>and\<close> does not evaluate \<open>ml[1]\<close> when the first
  comparison is false.
\<close>

definition in_limits :: "real \<Rightarrow> real list \<Rightarrow> error + bool" where
  "in_limits pt ml =
     (case ml of
        [] \<Rightarrow> Inl IndexError
      | lo # rest \<Rightarrow>
          if \<not> lo \<le> pt then Inr False
          else (case rest of [] \<Rightarrow> Inl IndexError | hi # _ \<Rightarrow> Inr (pt \<le> hi)))"

fun comprehension :: "(real \<times> real list) list \<Rightarrow> error + bool list" where
  "comprehension [] = Inr []"
| "comprehension ((pt, ml) # rest) =
     (case in_limits pt ml of
        Inl e \<Rightarrow> Inl e
      | Inr b \<Rightarrow> (case comprehension rest of Inl e \<Rightarrow> Inl e | Inr bs \<Rightarrow> Inr (b # bs)))"

definition IsInMapRegion :: "real list \<Rightarrow> real list list \<Rightarrow> error + bool" where
  "IsInMapRegion point map_lims =
     (case comprehension (zip point map_lims) of
        Inl e \<Rightarrow> Inl e
      | Inr bs \<Rightarrow> Inr (list_all (\<lambda>b. b) bs))"

text \<open>
  \<open>CalculateTimeOfFlight\<close>, statement by statement. A negative sample count makes
  \<open>np.linspace\<close> raise ValueError. With a zero-dimensional speed map the indexing returns a
  scalar, and iterating over it raises TypeError.
\<close>

definition CalculateTimeOfFlight ::
  "real list \<Rightarrow> real list \<Rightarrow> speed_map \<Rightarrow> int \<Rightarrow> error + (fval \<times> real list)" where
  "CalculateTimeOfFlight point_query point_origin speed_map steps_per_pixel =
     (if \<not> (length point_query = length point_origin
             \<and> length point_origin = length (shape speed_map))
      then Inl AssertionError
      else
        let displacement = map2 (\<lambda>q og. q - og) point_query point_origin;
            distance = linalg_norm displacement;
            direction = map (\<lambda>d. fdiv (Fin d) (Fin distance)) displacement;
            num = np_round (distance * real_of_int steps_per_pixel)
        in if num < 0 then Inl ValueError
           else
             let steps = linspace 0 distance (nat num);
                 dx = mean (map2 (\<lambda>a b. a - b) (tl steps) (butlast steps));
                 samples = map (\<lambda>s. map2 (\<lambda>d og. fadd (fmul (Fin s) d) (Fin og))
                                          direction point_origin) steps
             in case those (map (\<lambda>p. those (map astype_int p)) samples) of
                  None \<Rightarrow> Inl UndefinedCast
                | Some idx \<Rightarrow>
                    (case index_arrays speed_map idx of
                       None \<Rightarrow> Inl IndexError
                     | Some speeds \<Rightarrow>
                         if shape speed_map = [] then Inl TypeError
                         else Inr (fsum (map (\<lambda>sp. fdiv dx (Fin sp)) speeds), speeds)))"

text \<open>
  The intermediate values of \<open>CalculateTimeOfFlight\<close>, named for the theorems: the sample
  count (\<open>np.round(distance*steps_per_pixel).astype(int)\<close>), the array \<open>steps\<close>, the
  sub-step \<open>dx\<close>, and the array \<open>samples\<close> after rounding, one integer coordinate vector per
  step. \<open>pixel_samples\<close> divides reals, which is what the code computes when the distance is
  not zero; with distance zero there are no steps and both are empty. These are the values
  of the exact functions; \<open>count_fl\<close>, \<open>steps_fl\<close>, \<open>dx_fl\<close> and \<open>samples_fl\<close> further
  down are their counterparts in floating point, with the int64 cast.
\<close>

definition discretization_count :: "real list \<Rightarrow> real list \<Rightarrow> int \<Rightarrow> int" where
  "discretization_count point_query point_origin steps_per_pixel =
     np_round (linalg_norm (map2 (\<lambda>q og. q - og) point_query point_origin)
               * real_of_int steps_per_pixel)"

definition offsets :: "real list \<Rightarrow> real list \<Rightarrow> int \<Rightarrow> real list" where
  "offsets point_query point_origin steps_per_pixel =
     linspace 0 (linalg_norm (map2 (\<lambda>q og. q - og) point_query point_origin))
       (nat (discretization_count point_query point_origin steps_per_pixel))"

definition sub_step :: "real list \<Rightarrow> real list \<Rightarrow> int \<Rightarrow> fval" where
  "sub_step point_query point_origin steps_per_pixel =
     (let steps = offsets point_query point_origin steps_per_pixel
      in mean (map2 (\<lambda>a b. a - b) (tl steps) (butlast steps)))"

definition pixel_samples :: "real list \<Rightarrow> real list \<Rightarrow> int \<Rightarrow> int list list" where
  "pixel_samples point_query point_origin steps_per_pixel =
     map (\<lambda>s. map2 (\<lambda>q og. np_round
                   (s * ((q - og) / linalg_norm (map2 (\<lambda>q og. q - og) point_query point_origin))
                    + og))
               point_query point_origin)
         (offsets point_query point_origin steps_per_pixel)"

section \<open>Floating point and arrays in memory\<close>

text \<open>
  The functions above compute finite values exactly and take their arrays by value. The
  definitions that follow embed the same source lines with float64 arithmetic left open and
  with arrays in memory. Every finite result of an elementwise operation passes through
  \<open>rnd\<close>, the rounding of an exact result to a float, which may return an infinity on
  overflow. The reductions \<open>np.linalg.norm\<close>, \<open>sum\<close> and \<open>mean\<close>, and the integer
  that \<open>astype(int)\<close> makes of a NaN, an infinity or a value beyond the int64 range, are
  further fields; \<open>enough_memory d k\<close> tells whether the arrays for \<open>k\<close> points of
  dimension \<open>d\<close> can be allocated, and where they cannot the call raises MemoryError.
  Nothing is assumed of the fields, so a theorem stated for every \<open>float_ops\<close> holds for
  numpy on every platform where \<open>int\<close> is int64. The sign of zero stays out of the model.
  Arguments are float64 arrays of one dimension; \<open>step_size\<close> is a float and
  \<open>steps_per_pixel\<close> an integer.
\<close>

record float_ops =
  rnd :: "real \<Rightarrow> fval"
  norm_op :: "fval list \<Rightarrow> fval"
  sum_op :: "fval list \<Rightarrow> fval"
  mean_op :: "fval list \<Rightarrow> fval"
  cast_op :: "fval \<Rightarrow> int"
  enough_memory :: "nat \<Rightarrow> nat \<Rightarrow> bool"

fun fneg :: "fval \<Rightarrow> fval" where
  "fneg (Fin a) = Fin (- a)"
| "fneg PInf = NInf"
| "fneg NInf = PInf"
| "fneg NaN = NaN"

text \<open>
  The four elementwise operations: the exact result of two finite operands is rounded, a
  special operand gives the special value of \<open>fadd\<close>, \<open>fmul\<close> and \<open>fdiv\<close>.
\<close>

fun add_fl :: "float_ops \<Rightarrow> fval \<Rightarrow> fval \<Rightarrow> fval" where
  "add_fl N (Fin a) (Fin b) = rnd N (a + b)"
| "add_fl N x y = fadd x y"

fun sub_fl :: "float_ops \<Rightarrow> fval \<Rightarrow> fval \<Rightarrow> fval" where
  "sub_fl N (Fin a) (Fin b) = rnd N (a - b)"
| "sub_fl N x y = fadd x (fneg y)"

fun mul_fl :: "float_ops \<Rightarrow> fval \<Rightarrow> fval \<Rightarrow> fval" where
  "mul_fl N (Fin a) (Fin b) = rnd N (a * b)"
| "mul_fl N x y = fmul x y"

fun div_fl :: "float_ops \<Rightarrow> fval \<Rightarrow> fval \<Rightarrow> fval" where
  "div_fl N (Fin a) (Fin b) = (if b \<noteq> 0 then rnd N (a / b) else inf_of_sign (sgn a))"
| "div_fl N x y = fdiv x y"

text \<open>
  An integer operand of a float operation is converted to a float first.
\<close>

definition of_int_fl :: "float_ops \<Rightarrow> int \<Rightarrow> fval" where
  "of_int_fl N i = rnd N (real_of_int i)"

text \<open>
  \<open>np.round(x).astype(int)\<close>: rounding a float to an integral float is exact, and the cast
  returns that integer when it fits int64.
\<close>

definition round_astype_int :: "float_ops \<Rightarrow> fval \<Rightarrow> int" where
  "round_astype_int N v =
     (case v of
        Fin x \<Rightarrow> if - (2 ^ 63) \<le> np_round x \<and> np_round x < 2 ^ 63 then np_round x
                 else cast_op N v
      | _ \<Rightarrow> cast_op N v)"

text \<open>
  \<open>np.linspace\<close>, with the branch numpy takes when the step underflows to zero.
\<close>

definition linspace_fl :: "float_ops \<Rightarrow> fval \<Rightarrow> fval \<Rightarrow> nat \<Rightarrow> fval list" where
  "linspace_fl N start stop num =
     (let dv = int num - 1;
          delta = sub_fl N stop start;
          y = map (\<lambda>i. of_int_fl N (int i)) [0..<num];
          y1 = (if 0 < dv
                then (let step = div_fl N delta (of_int_fl N dv)
                      in if step = Fin 0
                         then map (\<lambda>v. mul_fl N (div_fl N v (of_int_fl N dv)) delta) y
                         else map (\<lambda>v. mul_fl N v step) y)
                else map (\<lambda>v. mul_fl N v delta) y);
          y2 = map (\<lambda>v. add_fl N v start) y1
      in if 1 < num then y2[num - 1 := stop] else y2)"

text \<open>
  \<open>SampleAlongLine\<close> on arrays in memory: an array is the list of the addresses of its
  elements, so that two arguments may share elements. Line 17 computes the norm, then
  overwrites every element of \<open>direction\<close> with its quotient; line 19 reads \<open>origin\<close> and
  \<open>direction\<close> from the memory so updated. The memory after the call is returned with the
  outcome. An array whose address list repeats an element is outside the model.
\<close>

definition SampleAlongLine_fl ::
  "float_ops \<Rightarrow> (nat \<Rightarrow> fval) \<Rightarrow> nat list \<Rightarrow> nat list \<Rightarrow> fval \<Rightarrow> int
     \<Rightarrow> (nat \<Rightarrow> fval) \<times> (error + fval list list)" where
  "SampleAlongLine_fl N mem origin direction step_size num_steps =
     (let nrm = norm_op N (map mem direction);
          mem' = (\<lambda>a. if a \<in> set direction then div_fl N (mem a) nrm else mem a);
          locations = map (\<lambda>n. broadcast2
                               (\<lambda>og d. add_fl N og
                                          (mul_fl N (mul_fl N (of_int_fl N (int n)) step_size) d))
                               (map mem' origin) (map mem' direction))
                          [0..<nat num_steps]
      in (mem',
          case those locations of
            None \<Rightarrow> Inl ValueError
          | Some locs \<Rightarrow>
              if locs = [] then Inl ValueError
              else if \<not> enough_memory N (max (length origin) (length direction)) (nat num_steps)
              then Inl MemoryError
              else Inr locs))"

text \<open>
  \<open>CalculateTimeOfFlight\<close> line by line (lines 32 to 39 of the source): \<open>displacement\<close>,
  \<open>distance\<close>, \<open>direction\<close>, the sample count, \<open>steps\<close>, \<open>dx\<close> and the rounded
  \<open>samples\<close>, one integer coordinate vector per step; then the function with its
  assertion, the indexing and the sum (lines 29 and 40 to 42).
\<close>

definition displacement_fl :: "float_ops \<Rightarrow> fval list \<Rightarrow> fval list \<Rightarrow> fval list" where
  "displacement_fl N point_query point_origin = map2 (sub_fl N) point_query point_origin"

definition distance_fl :: "float_ops \<Rightarrow> fval list \<Rightarrow> fval list \<Rightarrow> fval" where
  "distance_fl N point_query point_origin = norm_op N (displacement_fl N point_query point_origin)"

definition direction_fl :: "float_ops \<Rightarrow> fval list \<Rightarrow> fval list \<Rightarrow> fval list" where
  "direction_fl N point_query point_origin =
     map (\<lambda>d. div_fl N d (distance_fl N point_query point_origin))
         (displacement_fl N point_query point_origin)"

definition count_fl :: "float_ops \<Rightarrow> fval list \<Rightarrow> fval list \<Rightarrow> int \<Rightarrow> int" where
  "count_fl N point_query point_origin steps_per_pixel =
     round_astype_int N (mul_fl N (distance_fl N point_query point_origin)
                                  (of_int_fl N steps_per_pixel))"

definition steps_fl :: "float_ops \<Rightarrow> fval list \<Rightarrow> fval list \<Rightarrow> int \<Rightarrow> fval list" where
  "steps_fl N point_query point_origin steps_per_pixel =
     linspace_fl N (Fin 0) (distance_fl N point_query point_origin)
       (nat (count_fl N point_query point_origin steps_per_pixel))"

definition dx_fl :: "float_ops \<Rightarrow> fval list \<Rightarrow> fval list \<Rightarrow> int \<Rightarrow> fval" where
  "dx_fl N point_query point_origin steps_per_pixel =
     (let steps = steps_fl N point_query point_origin steps_per_pixel
      in mean_op N (map2 (sub_fl N) (tl steps) (butlast steps)))"

definition samples_fl :: "float_ops \<Rightarrow> fval list \<Rightarrow> fval list \<Rightarrow> int \<Rightarrow> int list list" where
  "samples_fl N point_query point_origin steps_per_pixel =
     map (\<lambda>s. map2 (\<lambda>d og. round_astype_int N (add_fl N (mul_fl N s d) og))
               (direction_fl N point_query point_origin) point_origin)
         (steps_fl N point_query point_origin steps_per_pixel)"

definition CalculateTimeOfFlight_fl ::
  "float_ops \<Rightarrow> fval list \<Rightarrow> fval list \<Rightarrow> speed_map \<Rightarrow> int \<Rightarrow> error + (fval \<times> real list)" where
  "CalculateTimeOfFlight_fl N point_query point_origin speed_map steps_per_pixel =
     (if \<not> (length point_query = length point_origin
             \<and> length point_origin = length (shape speed_map))
      then Inl AssertionError
      else if count_fl N point_query point_origin steps_per_pixel < 0 then Inl ValueError
      else if \<not> enough_memory N (length point_origin)
                     (nat (count_fl N point_query point_origin steps_per_pixel))
      then Inl MemoryError
      else
        (case index_arrays speed_map (samples_fl N point_query point_origin steps_per_pixel) of
           None \<Rightarrow> Inl IndexError
         | Some speeds \<Rightarrow>
             if shape speed_map = [] then Inl TypeError
             else Inr (sum_op N (map (\<lambda>sp. div_fl N (dx_fl N point_query point_origin
                                                        steps_per_pixel) (Fin sp)) speeds),
                       speeds)))"

text \<open>
  The instance without rounding and without a limit of memory, with the Euclidean norm, sum
  and mean of the exact functions on finite arrays. It gives the witnesses their concrete
  arithmetic, and the exact functions are this instance.
\<close>

definition is_fin :: "fval \<Rightarrow> bool" where
  "is_fin v = (case v of Fin _ \<Rightarrow> True | _ \<Rightarrow> False)"

definition fin_val :: "fval \<Rightarrow> real" where
  "fin_val v = (case v of Fin x \<Rightarrow> x | _ \<Rightarrow> 0)"

definition exact_ops :: float_ops where
  "exact_ops =
     \<lparr>rnd = Fin,
      norm_op = (\<lambda>v. if list_all is_fin v then Fin (linalg_norm (map fin_val v)) else NaN),
      sum_op = fsum,
      mean_op = (\<lambda>v. if list_all is_fin v then mean (map fin_val v) else NaN),
      cast_op = (\<lambda>v. case v of Fin x \<Rightarrow> np_round x | _ \<Rightarrow> - (2 ^ 63)),
      enough_memory = (\<lambda>_ _. True)\<rparr>"

section \<open>The region validator\<close>

lemma in_limits_two:
  "2 \<le> length ml \<Longrightarrow> in_limits pt ml = Inr (ml ! 0 \<le> pt \<and> pt \<le> ml ! 1)"
  by (cases ml; cases "tl ml") (auto simp: in_limits_def)

lemma comprehension_two:
  "\<forall>ml\<in>set (map snd ps). 2 \<le> length ml \<Longrightarrow>
   comprehension ps = Inr (map (\<lambda>(pt, ml). ml ! 0 \<le> pt \<and> pt \<le> ml ! 1) ps)"
  by (induction ps rule: comprehension.induct) (simp_all add: in_limits_two)

lemma IsInMapRegion_zip:
  assumes "\<forall>ml\<in>set map_lims. 2 \<le> length ml"
  shows "IsInMapRegion point map_lims =
         Inr (\<forall>i<min (length point) (length map_lims).
                map_lims ! i ! 0 \<le> point ! i \<and> point ! i \<le> map_lims ! i ! 1)"
proof -
  have "\<forall>ml\<in>set (map snd (zip point map_lims)). 2 \<le> length ml"
    using assms by (auto dest: set_zip_rightD)
  then show ?thesis
    unfolding IsInMapRegion_def
    by (simp add: comprehension_two list_all_length)
qed

text \<open>
  C9. For a point and limits of equal dimensionality, each limit a two-element interval,
  \<open>IsInMapRegion\<close> returns true exactly when every coordinate lies in the closed interval
  of its axis. In particular it is true for a point whose coordinates all sit on interval
  bounds, and false for a point one unit outside a bound on some axis.
\<close>

theorem IsInMapRegion_closed_intervals:
  assumes "length point = length map_lims"
    and "\<forall>ml\<in>set map_lims. length ml = 2"
  shows "IsInMapRegion point map_lims =
           Inr (\<forall>i<length point. map_lims ! i ! 0 \<le> point ! i \<and> point ! i \<le> map_lims ! i ! 1)
         \<and> ((\<forall>i<length point. map_lims ! i ! 0 \<le> map_lims ! i ! 1
                \<and> (point ! i = map_lims ! i ! 0 \<or> point ! i = map_lims ! i ! 1))
              \<longrightarrow> IsInMapRegion point map_lims = Inr True)
         \<and> ((\<exists>i<length point. point ! i = map_lims ! i ! 1 + 1 \<or> point ! i = map_lims ! i ! 0 - 1)
              \<longrightarrow> IsInMapRegion point map_lims = Inr False)"
proof -
  have two: "\<forall>ml\<in>set map_lims. 2 \<le> length ml" using assms(2) by simp
  have eq: "IsInMapRegion point map_lims =
           Inr (\<forall>i<length point. map_lims ! i ! 0 \<le> point ! i \<and> point ! i \<le> map_lims ! i ! 1)"
    using IsInMapRegion_zip [OF two, of point] assms(1) by simp
  show ?thesis
    unfolding eq by (intro conjI impI; fastforce)
qed

theorem IsInMapRegion_closed_intervals_witness:
  "IsInMapRegion [0, 5] [[0, 10], [0, 5]] = Inr True
   \<and> IsInMapRegion [11, 5] [[0, 10], [0, 5]] = Inr False
   \<and> IsInMapRegion [3, -1] [[0, 10], [0, 5]] = Inr False"
  using IsInMapRegion_closed_intervals [of "[0, 5]" "[[0, 10], [0, 5]]"]
    IsInMapRegion_closed_intervals [of "[11, 5]" "[[0, 10], [0, 5]]"]
    IsInMapRegion_closed_intervals [of "[3, -1]" "[[0, 10], [0, 5]]"]
  by (simp add: nth_Cons' less_Suc_eq all_conj_distrib)

text \<open>
  C8, as stated, fails: a three-dimensional point against two-dimensional limits raises
  nothing. \<open>zip\<close> stops at the shorter argument and the call returns a boolean.
\<close>

theorem IsInMapRegion_mismatch_counterexample:
  "IsInMapRegion [1, 2, 300] [[0, 10], [0, 10]] = Inr True"
  by (simp add: IsInMapRegion_def in_limits_def)

text \<open>
  C8, amended. With limits that are two-element intervals \<open>IsInMapRegion\<close> never fails,
  whatever the two dimensionalities: it returns the closed-interval test over the axes that
  both arguments have, the first \<open>min (length point) (length map_lims)\<close> ones.
\<close>

theorem IsInMapRegion_truncates:
  assumes "\<forall>ml\<in>set map_lims. length ml = 2"
  shows "IsInMapRegion point map_lims =
         Inr (\<forall>i<min (length point) (length map_lims).
                map_lims ! i ! 0 \<le> point ! i \<and> point ! i \<le> map_lims ! i ! 1)"
proof -
  have "\<forall>ml\<in>set map_lims. 2 \<le> length ml" using assms by simp
  then show ?thesis by (rule IsInMapRegion_zip)
qed

theorem IsInMapRegion_truncates_witness:
  "IsInMapRegion [1, 20] [[0, 10]] = Inr True
   \<and> IsInMapRegion [1] [[0, 10], [5, 6]] = Inr True"
  using IsInMapRegion_truncates [of "[[0, 10]]" "[1, 20]"]
    IsInMapRegion_truncates [of "[[0, 10], [5, 6]]" "[1]"]
  by simp

section \<open>The line sampler\<close>

lemma those_map_Some: "those (map (\<lambda>x. Some (f x)) xs) = Some (map f xs)"
  by (induction xs) simp_all

lemma sum_squares_nonneg: "0 \<le> sum_list (map (\<lambda>x::real. x * x) v)"
  by (induction v) simp_all

lemma sum_squares_eq_0: "sum_list (map (\<lambda>x::real. x * x) v) = 0 \<longleftrightarrow> (\<forall>x\<in>set v. x = 0)"
proof (induction v)
  case Nil
  then show ?case by simp
next
  case (Cons a v)
  have "0 \<le> a * a" by simp
  then have "a * a + sum_list (map (\<lambda>x::real. x * x) v) = 0
      \<longleftrightarrow> a * a = 0 \<and> sum_list (map (\<lambda>x::real. x * x) v) = 0"
    by (rule add_nonneg_eq_0_iff [OF _ sum_squares_nonneg])
  then show ?case using Cons.IH by simp
qed

lemma linalg_norm_eq_0: "linalg_norm v = 0 \<longleftrightarrow> (\<forall>x\<in>set v. x = 0)"
  unfolding linalg_norm_def by (simp add: sum_squares_eq_0)

lemma broadcast2_same:
  "length xs = length ys \<Longrightarrow> broadcast2 f xs ys = Some (map2 f xs ys)"
  by (simp add: broadcast2_def)

lemma map_eq_replicate:
  "\<forall>x\<in>set xs. f x = c \<Longrightarrow> map f xs = replicate (length xs) c"
  by (induction xs) simp_all

lemma SampleAlongLine_zero:
  assumes len: "length direction = length origin"
    and z: "\<forall>d\<in>set direction. d = 0"
    and k: "1 \<le> num_steps"
  shows "SampleAlongLine origin direction step_size num_steps =
    (replicate (length direction) NaN,
     Inr (replicate (nat num_steps) (replicate (length direction) NaN)))"
proof -
  have n0: "linalg_norm direction = 0" using z by (simp add: linalg_norm_eq_0)
  have dir: "map (\<lambda>d. fdiv (Fin d) (Fin (linalg_norm direction))) direction
           = replicate (length direction) NaN"
    using z n0 by (intro map_eq_replicate) (auto simp: inf_of_sign_def)
  have loc: "broadcast2 (\<lambda>og d. fadd (Fin og) (fmul (Fin (real n * step_size)) d)) origin
               (replicate (length direction) NaN)
           = Some (replicate (length direction) NaN)" for n
  proof -
    let ?f = "\<lambda>og d. fadd (Fin og) (fmul (Fin (real n * step_size)) d)"
    let ?zs = "zip origin (replicate (length direction) NaN)"
    have "\<forall>p\<in>set ?zs. (case p of (og, d) \<Rightarrow> ?f og d) = NaN"
      by (auto dest!: set_zip_rightD)
    then have "map (\<lambda>(og, d). ?f og d) ?zs = replicate (length ?zs) NaN"
      by (rule map_eq_replicate)
    then show ?thesis using len by (simp add: broadcast2_same)
  qed
  have ne: "[0..<nat num_steps] \<noteq> []" using k by simp
  show ?thesis
    unfolding SampleAlongLine_def Let_def dir loc those_map_Some
    using ne by (simp add: map_replicate_const)
qed

lemma sqrt_25: "sqrt 25 = 5"
  by (rule real_sqrt_unique) simp_all

text \<open>
  C4, as stated, fails: with the zero direction the call raises nothing. The division
  \<open>0/0\<close> yields NaN, which fills the direction array and every returned point.
\<close>

theorem SampleAlongLine_zero_direction_counterexample:
  "SampleAlongLine [1, 2] [0, 0] 1 2 = ([NaN, NaN], Inr [[NaN, NaN], [NaN, NaN]])"
  by (simp add: SampleAlongLine_def Let_def linalg_norm_def broadcast2_def inf_of_sign_def upt_rec numeral_nat)

text \<open>
  C4, amended. For a direction of zero magnitude (of the dimensionality of the origin, with
  \<open>num_steps \<ge> 1\<close>) \<open>SampleAlongLine\<close> does not fail: it returns \<open>num_steps\<close> points
  whose coordinates are all NaN, and leaves NaN in the direction array.
\<close>

theorem SampleAlongLine_zero_direction:
  assumes "length direction = length origin"
    and "\<forall>d\<in>set direction. d = 0"
    and "1 \<le> num_steps"
  shows "SampleAlongLine origin direction step_size num_steps =
    (replicate (length direction) NaN,
     Inr (replicate (nat num_steps) (replicate (length direction) NaN)))"
  using assms by (rule SampleAlongLine_zero)

theorem SampleAlongLine_zero_direction_witness:
  "SampleAlongLine [1, 2, 3] [0, 0, 0] 7 2
     = ([NaN, NaN, NaN], Inr [[NaN, NaN, NaN], [NaN, NaN, NaN]])"
  using SampleAlongLine_zero_direction [of "[0, 0, 0]" "[1, 2, 3]" 2 7]
  by (simp add: numeral_nat)

text \<open>
  C7. \<open>SampleAlongLine\<close> is to leave its arguments unchanged. The code divides
  \<open>direction\<close> in place: called with direction \<open>(3, 4)\<close>, it leaves \<open>(0.6, 0.8)\<close> in the
  caller's array.
\<close>

theorem SampleAlongLine_overwrites_direction:
  "SampleAlongLine [0, 0] [3, 4] 1 2
     = ([Fin (3 / 5), Fin (4 / 5)], Inr [[Fin 0, Fin 0], [Fin (3 / 5), Fin (4 / 5)]])
   \<and> fst (SampleAlongLine [0, 0] [3, 4] 1 2) \<noteq> map Fin [3, 4]"
  by (simp add: SampleAlongLine_def Let_def linalg_norm_def sqrt_25 broadcast2_def upt_rec numeral_nat)

section \<open>The time-of-flight integrator\<close>

lemma np_round_0: "np_round 0 = 0"
  by (simp add: np_round_def)

lemma linspace_0: "linspace a b 0 = []"
  by (simp add: linspace_def)

lemma cast_samples:
  assumes "L \<noteq> 0"
  shows "those (map (\<lambda>p. those (map astype_int p))
            (map (\<lambda>s. map2 (\<lambda>d og. fadd (fmul (Fin s) d) (Fin og))
                        (map (\<lambda>d. fdiv (Fin d) (Fin L)) (map2 (\<lambda>q og. q - og) qs os)) os) steps))
         = Some (map (\<lambda>s. map2 (\<lambda>q og. np_round (s * ((q - og) / L) + og)) qs os) steps)"
proof -
  define row where "row = (\<lambda>s. map2 (\<lambda>d og. fadd (fmul (Fin s) d) (Fin og))
                        (map (\<lambda>d. fdiv (Fin d) (Fin L)) (map2 (\<lambda>q og. q - og) qs os)) os)"
  have r: "those (map astype_int (row s))
           = Some (map2 (\<lambda>q og. np_round (s * ((q - og) / L) + og)) qs os)" for s
    unfolding row_def using assms by (induction qs os rule: list_induct2') simp_all
  have "those (map (\<lambda>p. those (map astype_int p)) (map row steps))
        = Some (map (\<lambda>s. map2 (\<lambda>q og. np_round (s * ((q - og) / L) + og)) qs os) steps)"
    by (simp add: comp_def r those_map_Some)
  then show ?thesis unfolding row_def .
qed

lemma CalculateTimeOfFlight_unfold:
  assumes "length point_query = length point_origin"
    and "length point_origin = length (shape speed_map)"
    and "0 \<le> discretization_count point_query point_origin steps_per_pixel"
  shows "CalculateTimeOfFlight point_query point_origin speed_map steps_per_pixel =
     (case index_arrays speed_map (pixel_samples point_query point_origin steps_per_pixel) of
        None \<Rightarrow> Inl IndexError
      | Some speeds \<Rightarrow>
          if shape speed_map = [] then Inl TypeError
          else Inr (fsum (map (\<lambda>sp. fdiv (sub_step point_query point_origin steps_per_pixel) (Fin sp))
                          speeds), speeds))"
proof (cases "linalg_norm (map2 (\<lambda>q og. q - og) point_query point_origin) = 0")
  case True
  then have "discretization_count point_query point_origin steps_per_pixel = 0"
    by (simp add: discretization_count_def np_round_0)
  then have off: "offsets point_query point_origin steps_per_pixel = []"
    by (simp add: offsets_def linspace_0)
  show ?thesis
    using assms True
    unfolding CalculateTimeOfFlight_def Let_def pixel_samples_def sub_step_def off
    by (simp add: np_round_0 linspace_0 index_arrays_def)
next
  case False
  show ?thesis
    using assms
    unfolding CalculateTimeOfFlight_def Let_def pixel_samples_def sub_step_def offsets_def
      discretization_count_def cast_samples [OF False]
    by simp
qed









lemma those_eq_None: "those xs = None \<longleftrightarrow> None \<in> set xs"
  by (induction xs) (auto split: option.splits)

lemma those_eq_Some: "those xs = Some ys \<longleftrightarrow> xs = map Some ys"
  by (induction xs arbitrary: ys) (auto split: option.splits)

lemma axis_index_None: "axis_index n i = None \<longleftrightarrow> i < - int n \<or> int n \<le> i"
  by (auto simp: axis_index_def)

lemma axis_index_Some:
  "axis_index n i = Some m \<Longrightarrow> m = nat (if i < 0 then i + int n else i)"
  by (auto simp: axis_index_def split: if_splits)

lemma None_in_set_nth:
  "None \<in> set xs \<longleftrightarrow> (\<exists>j<length xs. xs ! j = None)"
  by (metis in_set_conv_nth)

lemma resolve_None:
  "those (map2 axis_index ns p) = None \<longleftrightarrow>
   (\<exists>j<min (length ns) (length p). p ! j < - int (ns ! j) \<or> int (ns ! j) \<le> p ! j)"
  unfolding those_eq_None None_in_set_nth
  by (simp add: axis_index_None cong: conj_cong)

lemma resolve_Some:
  assumes "those (map2 axis_index ns p) = Some r"
  shows "r = map2 (\<lambda>n c. nat (if c < 0 then c + int n else c)) ns p"
proof -
  have eq: "map2 axis_index ns p = map Some r" using assms by (simp add: those_eq_Some)
  then have len: "length r = length (zip ns p)" by (metis length_map)
  show ?thesis
  proof (rule nth_equalityI)
    show "length r = length (map2 (\<lambda>n c. nat (if c < 0 then c + int n else c)) ns p)"
      using len by simp
  next
    fix j assume j: "j < length r"
    then have "map2 axis_index ns p ! j = Some (r ! j)" using eq by simp
    then have "axis_index (ns ! j) (p ! j) = Some (r ! j)" using j len by simp
    then have "r ! j = nat (if p ! j < 0 then p ! j + int (ns ! j) else p ! j)"
      by (rule axis_index_Some)
    then show "r ! j = map2 (\<lambda>n c. nat (if c < 0 then c + int n else c)) ns p ! j"
      using j len by simp
  qed
qed

lemma those_map_None: "those (map g xs) = None \<longleftrightarrow> (\<exists>x\<in>set xs. g x = None)"
  by (induction xs) (auto split: option.splits)

lemma index_arrays_None:
  "index_arrays sm idx = None \<longleftrightarrow>
   (\<exists>p\<in>set idx. \<exists>j<min (length (shape sm)) (length p).
        p ! j < - int (shape sm ! j) \<or> int (shape sm ! j) \<le> p ! j)"
proof -
  have "index_arrays sm idx = None \<longleftrightarrow>
        (\<exists>p\<in>set idx. map_option (entry sm) (those (map2 axis_index (shape sm) p)) = None)"
    unfolding index_arrays_def by (rule those_map_None)
  then show ?thesis by (simp only: map_option_is_None resolve_None)
qed

lemma index_arrays_Some:
  assumes "index_arrays sm idx = Some speeds"
  shows "speeds = map (\<lambda>p. entry sm (map2 (\<lambda>n c. nat (if c < 0 then c + int n else c))
                                        (shape sm) p)) idx"
proof -
  have eq: "map (\<lambda>p. map_option (entry sm) (those (map2 axis_index (shape sm) p))) idx
            = map Some speeds"
    using assms by (simp add: index_arrays_def those_eq_Some)
  then have len: "length speeds = length idx" by (metis length_map)
  show ?thesis
  proof (rule nth_equalityI)
    show "length speeds = length (map (\<lambda>p. entry sm (map2 (\<lambda>n c. nat (if c < 0 then c + int n else c))
                                        (shape sm) p)) idx)"
      using len by simp
  next
    fix i assume i: "i < length speeds"
    then have "map (\<lambda>p. map_option (entry sm) (those (map2 axis_index (shape sm) p))) idx ! i
               = Some (speeds ! i)" using eq by simp
    then have "map_option (entry sm) (those (map2 axis_index (shape sm) (idx ! i))) = Some (speeds ! i)"
      using i len by simp
    then obtain r where r: "those (map2 axis_index (shape sm) (idx ! i)) = Some r"
      and s: "speeds ! i = entry sm r" by auto
    show "speeds ! i = map (\<lambda>p. entry sm (map2 (\<lambda>n c. nat (if c < 0 then c + int n else c))
                                        (shape sm) p)) idx ! i"
      using i len s resolve_Some [OF r] by simp
  qed
qed

lemma index_arrays_shape:
  "shape sm' = shape sm \<Longrightarrow> index_arrays sm' idx = None \<longleftrightarrow> index_arrays sm idx = None"
  by (simp add: index_arrays_None)

lemma length_index_arrays:
  "index_arrays sm idx = Some speeds \<Longrightarrow> length speeds = length idx"
  by (drule index_arrays_Some) simp

lemma CalculateTimeOfFlight_negative:
  assumes "length point_query = length point_origin"
    and "length point_origin = length (shape speed_map)"
    and "discretization_count point_query point_origin steps_per_pixel < 0"
  shows "CalculateTimeOfFlight point_query point_origin speed_map steps_per_pixel = Inl ValueError"
  using assms unfolding CalculateTimeOfFlight_def Let_def discretization_count_def by simp

lemma pixel_samples_negative:
  "discretization_count q og spp \<le> 0 \<Longrightarrow> pixel_samples q og spp = []"
  by (simp add: pixel_samples_def offsets_def linspace_0)


lemma norm_self_difference: "linalg_norm (map2 (\<lambda>q og. q - og) p p) = 0"
proof -
  have "\<forall>x\<in>set (map2 (\<lambda>q og. q - og) p p). x = 0"
    by (auto simp: zip_same)
  then show ?thesis by (simp only: linalg_norm_eq_0)
qed

lemma discretization_count_self: "discretization_count p p spp = 0"
  by (simp add: discretization_count_def norm_self_difference np_round_0)

lemma CalculateTimeOfFlight_Inr:
  assumes "CalculateTimeOfFlight q og sm spp = Inr (t, speeds)"
  shows "length q = length og \<and> length og = length (shape sm)
       \<and> 0 \<le> discretization_count q og spp
       \<and> shape sm \<noteq> []
       \<and> index_arrays sm (pixel_samples q og spp) = Some speeds
       \<and> t = fsum (map (\<lambda>sp. fdiv (sub_step q og spp) (Fin sp)) speeds)"
proof -
  have dims: "length q = length og \<and> length og = length (shape sm)"
    using assms unfolding CalculateTimeOfFlight_def by (auto split: if_splits)
  then have d1: "length q = length og" and d2: "length og = length (shape sm)" by simp_all
  have c: "0 \<le> discretization_count q og spp"
  proof (rule ccontr)
    assume "\<not> 0 \<le> discretization_count q og spp"
    then have "discretization_count q og spp < 0" by simp
    from CalculateTimeOfFlight_negative [OF d1 d2 this] assms show False by simp
  qed
  from assms show ?thesis
    unfolding CalculateTimeOfFlight_unfold [OF d1 d2 c] using dims c
    by (auto split: option.splits if_splits)
qed

lemmas tof_eval = CalculateTimeOfFlight_def Let_def linalg_norm_def np_round_def linspace_def
  mean_def index_arrays_def axis_index_def inf_of_sign_def upt_rec numeral_nat

lemma CalculateTimeOfFlight_mismatch:
  "\<not> (length q = length og \<and> length og = length (shape sm)) \<Longrightarrow>
   CalculateTimeOfFlight q og sm spp = Inl AssertionError"
  unfolding CalculateTimeOfFlight_def by simp

lemma CalculateTimeOfFlight_error_shape:
  assumes "shape sm' = shape sm"
  shows "CalculateTimeOfFlight q og sm' spp = Inl e \<longleftrightarrow> CalculateTimeOfFlight q og sm spp = Inl e"
proof (cases "length q = length og \<and> length og = length (shape sm)")
  case False
  then have "\<not> (length q = length og \<and> length og = length (shape sm'))" using assms by simp
  then show ?thesis
    using False by (simp add: CalculateTimeOfFlight_mismatch)
next
  case True
  then have d1: "length q = length og" and d2: "length og = length (shape sm)"
    and d2': "length og = length (shape sm')" using assms by simp_all
  show ?thesis
  proof (cases "discretization_count q og spp < 0")
    case True
    show ?thesis
      by (simp add: CalculateTimeOfFlight_negative [OF d1 d2 True]
            CalculateTimeOfFlight_negative [OF d1 d2' True])
  next
    case False
    then have c: "0 \<le> discretization_count q og spp" by simp
    show ?thesis
      unfolding CalculateTimeOfFlight_unfold [OF d1 d2 c] CalculateTimeOfFlight_unfold [OF d1 d2' c]
      using index_arrays_shape [OF assms, of "pixel_samples q og spp"] assms
      by (auto split: option.splits)
  qed
qed




subsection \<open>Zero distance\<close>

text \<open>
  C1. With query equal to origin, of the dimensionality of a speed map of rank at least one,
  \<open>CalculateTimeOfFlight\<close> returns total time \<open>0\<close> and no sampled speeds: the sample
  count is \<open>0\<close>, so the NaN direction and the NaN sub-step meet no sample, and the empty sum
  is \<open>0.0\<close>.
\<close>

theorem CalculateTimeOfFlight_zero_distance:
  assumes "length p = length (shape speed_map)" and "shape speed_map \<noteq> []"
  shows "CalculateTimeOfFlight p p speed_map steps_per_pixel = Inr (Fin 0, [])"
proof -
  have c: "0 \<le> discretization_count p p steps_per_pixel"
    by (simp add: discretization_count_self)
  have s: "pixel_samples p p steps_per_pixel = []"
    by (rule pixel_samples_negative) (simp add: discretization_count_self)
  show ?thesis
    unfolding CalculateTimeOfFlight_unfold [OF refl assms(1) c] s
    using assms(2) by (simp add: index_arrays_def)
qed

theorem CalculateTimeOfFlight_zero_distance_witness:
  "CalculateTimeOfFlight [10, 50] [10, 50] \<lparr>shape = [100, 100], entry = (\<lambda>_. 1500)\<rparr> 8
   = Inr (Fin 0, [])"
  using CalculateTimeOfFlight_zero_distance
          [of "[10, 50]" "\<lparr>shape = [100, 100], entry = (\<lambda>_. 1500)\<rparr>" 8]
  by simp

subsection \<open>Non-positive speeds\<close>

text \<open>
  C6, as stated, fails: with sampled speeds \<open>0\<close> and \<open>- 1\<close> the call raises nothing and
  returns an infinite total time.
\<close>

theorem CalculateTimeOfFlight_nonpositive_counterexample:
  "CalculateTimeOfFlight [2] [0] \<lparr>shape = [3], entry = (\<lambda>idx. - real (hd idx) / 2)\<rparr> 1
   = Inr (PInf, [0, - 1])"
  by (simp add: tof_eval)

text \<open>
  C6, amended. \<open>CalculateTimeOfFlight\<close> never fails on account of a sampled speed:
  whether it fails, and with which error, depends on the endpoints, the steps per pixel and
  the shape of the speed map only, not on its entries. When it returns, the total time is
  the sum of \<open>dx / speed\<close> over the sampled speeds whatever their sign: for \<open>dx > 0\<close> a
  zero speed contributes an infinite term and a negative speed a negative one.
\<close>

theorem CalculateTimeOfFlight_ignores_speed_values:
  assumes "shape sm' = shape sm"
  shows "(\<forall>e. CalculateTimeOfFlight q og sm' spp = Inl e
              \<longleftrightarrow> CalculateTimeOfFlight q og sm spp = Inl e)
       \<and> (\<forall>t speeds. CalculateTimeOfFlight q og sm spp = Inr (t, speeds)
              \<longrightarrow> t = fsum (map (\<lambda>sp. fdiv (sub_step q og spp) (Fin sp)) speeds))
       \<and> (\<forall>dx>0. fdiv (Fin dx) (Fin 0) = PInf
              \<and> (\<forall>sp<0. fdiv (Fin dx) (Fin sp) = Fin (dx / sp) \<and> dx / sp < 0))"
proof (intro conjI allI impI)
  fix e
  show "CalculateTimeOfFlight q og sm' spp = Inl e \<longleftrightarrow> CalculateTimeOfFlight q og sm spp = Inl e"
    using assms by (rule CalculateTimeOfFlight_error_shape)
next
  fix t speeds
  assume "CalculateTimeOfFlight q og sm spp = Inr (t, speeds)"
  then show "t = fsum (map (\<lambda>sp. fdiv (sub_step q og spp) (Fin sp)) speeds)"
    by (simp add: CalculateTimeOfFlight_Inr)
next
  fix dx :: real assume "0 < dx"
  then show "fdiv (Fin dx) (Fin 0) = PInf" by (simp add: inf_of_sign_def)
next
  fix dx sp :: real assume "0 < dx" "sp < 0"
  then show "fdiv (Fin dx) (Fin sp) = Fin (dx / sp)" by simp
next
  fix dx sp :: real assume "0 < dx" "sp < 0"
  then show "dx / sp < 0" by (simp add: divide_pos_neg)
qed

theorem CalculateTimeOfFlight_ignores_speed_values_witness:
  "CalculateTimeOfFlight [2] [0] \<lparr>shape = [3], entry = (\<lambda>_. - 1)\<rparr> 1 \<noteq> Inl IndexError
   \<and> CalculateTimeOfFlight [2] [0] \<lparr>shape = [3], entry = (\<lambda>_. - 1)\<rparr> 1 = Inr (Fin (- 4), [- 1, - 1])
   \<and> fdiv (Fin 2) (Fin 0) = PInf"
  using CalculateTimeOfFlight_ignores_speed_values
          [of "\<lparr>shape = [3], entry = (\<lambda>_. - 1)\<rparr>" "\<lparr>shape = [3], entry = (\<lambda>_. 1)\<rparr>" "[2]" "[0]" 1]
  by (simp add: tof_eval)

subsection \<open>Constant speed map\<close>




section \<open>The functions in floating point\<close>

lemma length_linspace_fl: "length (linspace_fl N a b n) = n"
  by (simp add: linspace_fl_def Let_def)

lemma last_linspace_fl:
  assumes "2 \<le> n"
  shows "last (linspace_fl N a b n) = b"
proof -
  have len: "length (linspace_fl N a b n) = n" by (rule length_linspace_fl)
  then have ne: "linspace_fl N a b n \<noteq> []" using assms by auto
  have "linspace_fl N a b n ! (n - 1) = b"
    using assms by (simp add: linspace_fl_def Let_def)
  then show ?thesis using ne len by (simp add: last_conv_nth)
qed

lemma length_steps_fl:
  "length (steps_fl N q og spp) = nat (count_fl N q og spp)"
  by (simp add: steps_fl_def length_linspace_fl)

lemma length_samples_fl:
  "length (samples_fl N q og spp) = nat (count_fl N q og spp)"
  by (simp add: samples_fl_def length_steps_fl)

lemma samples_fl_nth:
  "i < nat (count_fl N q og spp) \<Longrightarrow>
   samples_fl N q og spp ! i =
     map2 (\<lambda>d c. round_astype_int N (add_fl N (mul_fl N (steps_fl N q og spp ! i) d) c))
          (direction_fl N q og) og"
  by (simp add: samples_fl_def length_steps_fl)

lemma sample_fl_length:
  "p \<in> set (samples_fl N q og spp) \<Longrightarrow> length p = min (length q) (length og)"
  by (auto simp: samples_fl_def direction_fl_def displacement_fl_def)

lemma samples_fl_negative:
  "count_fl N q og spp \<le> 0 \<Longrightarrow> samples_fl N q og spp = []"
  using length_samples_fl [of N q og spp] by simp

lemma count_fl_in_range:
  assumes "mul_fl N (distance_fl N q og) (of_int_fl N spp) = Fin x"
    and "- (2 ^ 63) \<le> np_round x" and "np_round x < 2 ^ 63"
  shows "count_fl N q og spp = np_round x"
  using assms by (simp add: count_fl_def round_astype_int_def)

lemma CalculateTimeOfFlight_fl_Inr:
  assumes "CalculateTimeOfFlight_fl N q og sm spp = Inr (t, speeds)"
  shows "length q = length og \<and> length og = length (shape sm)
       \<and> 0 \<le> count_fl N q og spp
       \<and> enough_memory N (length og) (nat (count_fl N q og spp))
       \<and> shape sm \<noteq> []
       \<and> index_arrays sm (samples_fl N q og spp) = Some speeds
       \<and> t = sum_op N (map (\<lambda>sp. div_fl N (dx_fl N q og spp) (Fin sp)) speeds)"
  using assms unfolding CalculateTimeOfFlight_fl_def
  by (auto split: if_splits option.splits)



lemma exact_ops_sel:
  "rnd exact_ops = Fin"
  "norm_op exact_ops v = (if list_all is_fin v then Fin (linalg_norm (map fin_val v)) else NaN)"
  "sum_op exact_ops = fsum"
  "mean_op exact_ops v = (if list_all is_fin v then mean (map fin_val v) else NaN)"
  "cast_op exact_ops (Fin x) = np_round x"
  "enough_memory exact_ops d k"
  by (simp_all add: exact_ops_def)

lemmas fl_eval = CalculateTimeOfFlight_fl_def count_fl_def steps_fl_def dx_fl_def samples_fl_def
  direction_fl_def distance_fl_def displacement_fl_def linspace_fl_def round_astype_int_def
  of_int_fl_def exact_ops_sel is_fin_def fin_val_def Let_def linalg_norm_def np_round_def
  mean_def index_arrays_def axis_index_def inf_of_sign_def upt_rec numeral_nat

subsection \<open>The exact functions are the instance without rounding\<close>

lemma rnd_exact: "rnd exact_ops x = Fin x"
  by (simp add: exact_ops_sel)

lemma add_fl_exact: "add_fl exact_ops x y = fadd x y"
  by (cases x; cases y) (simp_all add: exact_ops_sel)

lemma mul_fl_exact: "mul_fl exact_ops x y = fmul x y"
  by (cases x; cases y) (simp_all add: exact_ops_sel)

lemma div_fl_exact: "div_fl exact_ops x y = fdiv x y"
  by (cases x; cases y) (simp_all add: exact_ops_sel)

lemma sub_fl_exact: "sub_fl exact_ops (Fin a) (Fin b) = Fin (a - b)"
  by (simp add: exact_ops_sel)

lemma of_int_fl_exact: "of_int_fl exact_ops i = Fin (real_of_int i)"
  by (simp add: of_int_fl_def exact_ops_sel)

lemma round_astype_int_exact: "round_astype_int exact_ops (Fin x) = np_round x"
  by (simp add: round_astype_int_def exact_ops_sel)

lemma all_fin_map: "list_all is_fin (map Fin v)"
  by (induction v) (simp_all add: is_fin_def)

lemma fin_val_map: "map fin_val (map Fin v) = v"
  by (induction v) (simp_all add: fin_val_def)

lemma norm_op_exact: "norm_op exact_ops (map Fin v) = Fin (linalg_norm v)"
  by (simp add: exact_ops_sel all_fin_map fin_val_map del: map_map)

lemma mean_op_exact: "mean_op exact_ops (map Fin v) = mean v"
  by (simp add: exact_ops_sel all_fin_map fin_val_map del: map_map)

lemma map2_sub_exact:
  "map2 (sub_fl exact_ops) (map Fin xs) (map Fin ys) = map Fin (map2 (\<lambda>a b. a - b) xs ys)"
  by (induction xs ys rule: list_induct2') (simp_all add: rnd_exact)

lemma linspace_fl_exact:
  "linspace_fl exact_ops (Fin a) (Fin b) n = map Fin (linspace a b n)"
proof -
  have y: "map (\<lambda>i. of_int_fl exact_ops (int i)) [0..<n] = map Fin (map real [0..<n])"
    by (simp add: of_int_fl_exact)
  show ?thesis
  proof (cases "0 < int n - 1")
    case True
    then have dv: "real n - 1 \<noteq> 0" by simp
    show ?thesis
      using True dv
      unfolding linspace_fl_def linspace_def Let_def
      by (simp add: of_int_fl_exact rnd_exact div_fl_exact mul_fl_exact add_fl_exact
            map_update comp_def)
  next
    case False
    then show ?thesis
      unfolding linspace_fl_def linspace_def Let_def
      by (simp add: of_int_fl_exact rnd_exact mul_fl_exact add_fl_exact comp_def)
  qed
qed

lemma displacement_fl_exact:
  "displacement_fl exact_ops (map Fin q) (map Fin og) = map Fin (map2 (\<lambda>q og. q - og) q og)"
  unfolding displacement_fl_def by (rule map2_sub_exact)

lemma distance_fl_exact:
  "distance_fl exact_ops (map Fin q) (map Fin og) = Fin (linalg_norm (map2 (\<lambda>q og. q - og) q og))"
  unfolding distance_fl_def displacement_fl_exact by (rule norm_op_exact)

lemma count_fl_exact:
  "count_fl exact_ops (map Fin q) (map Fin og) spp = discretization_count q og spp"
  unfolding count_fl_def distance_fl_exact discretization_count_def
  by (simp add: of_int_fl_exact rnd_exact round_astype_int_exact)

lemma steps_fl_exact:
  "steps_fl exact_ops (map Fin q) (map Fin og) spp = map Fin (offsets q og spp)"
  unfolding steps_fl_def offsets_def distance_fl_exact count_fl_exact
  by (rule linspace_fl_exact)

lemma dx_fl_exact:
  "dx_fl exact_ops (map Fin q) (map Fin og) spp = sub_step q og spp"
  unfolding dx_fl_def sub_step_def Let_def steps_fl_exact
  by (simp only: map_tl [symmetric] map_butlast [symmetric] map2_sub_exact mean_op_exact)

lemma sample_row_exact:
  assumes "L \<noteq> 0"
  shows "map2 (\<lambda>d c. round_astype_int exact_ops (add_fl exact_ops (mul_fl exact_ops (Fin s) d) c))
           (map (\<lambda>d. div_fl exact_ops d (Fin L)) (map Fin (map2 (\<lambda>q og. q - og) qs os)))
           (map Fin os)
         = map2 (\<lambda>q og. np_round (s * ((q - og) / L) + og)) qs os"
  using assms
  by (induction qs os rule: list_induct2')
     (simp_all add: rnd_exact round_astype_int_exact)

lemma samples_fl_exact:
  "samples_fl exact_ops (map Fin q) (map Fin og) spp = pixel_samples q og spp"
proof (cases "linalg_norm (map2 (\<lambda>q og. q - og) q og) = 0")
  case True
  then have "discretization_count q og spp = 0"
    by (simp add: discretization_count_def np_round_0)
  then show ?thesis
    by (simp add: samples_fl_def steps_fl_exact pixel_samples_def offsets_def linspace_0)
next
  case False
  define F where "F = (\<lambda>s. map2 (\<lambda>d c. round_astype_int exact_ops
                                      (add_fl exact_ops (mul_fl exact_ops s d) c))
           (map (\<lambda>d. div_fl exact_ops d (Fin (linalg_norm (map2 (\<lambda>q og. q - og) q og))))
                (map Fin (map2 (\<lambda>q og. q - og) q og)))
           (map Fin og))"
  have F: "F (Fin s) = map2 (\<lambda>qc oc. np_round
                   (s * ((qc - oc) / linalg_norm (map2 (\<lambda>q og. q - og) q og)) + oc)) q og" for s
    unfolding F_def by (rule sample_row_exact [OF False])
  have "map F (map Fin (offsets q og spp)) = pixel_samples q og spp"
    unfolding pixel_samples_def by (simp add: comp_def F)
  then show ?thesis
    unfolding samples_fl_def steps_fl_exact direction_fl_def
      displacement_fl_exact distance_fl_exact F_def .
qed

lemma CalculateTimeOfFlight_exact_instance:
  "CalculateTimeOfFlight q og sm spp
   = CalculateTimeOfFlight_fl exact_ops (map Fin q) (map Fin og) sm spp"
proof (cases "length q = length og \<and> length og = length (shape sm)")
  case False
  then show ?thesis
    by (simp add: CalculateTimeOfFlight_mismatch CalculateTimeOfFlight_fl_def)
next
  case True
  then have d1: "length q = length og" and d2: "length og = length (shape sm)" by simp_all
  show ?thesis
  proof (cases "discretization_count q og spp < 0")
    case True
    then show ?thesis
      using d1 d2
      by (simp add: CalculateTimeOfFlight_negative [OF d1 d2 True]
            CalculateTimeOfFlight_fl_def count_fl_exact)
  next
    case False
    then have c: "0 \<le> discretization_count q og spp" by simp
    show ?thesis
      unfolding CalculateTimeOfFlight_unfold [OF d1 d2 c] CalculateTimeOfFlight_fl_def
        count_fl_exact samples_fl_exact dx_fl_exact
      using d1 d2 c
      by (simp add: div_fl_exact exact_ops_sel split: option.splits)
  qed
qed

lemma broadcast2_map_left:
  "broadcast2 f (map h xs) ys = broadcast2 (\<lambda>x. f (h x)) xs ys"
proof -
  have "map2 f (map h xs) ys = map2 (\<lambda>x. f (h x)) xs ys"
    by (induction xs ys rule: list_induct2') simp_all
  moreover have "length xs = 1 \<Longrightarrow> hd (map h xs) = h (hd xs)"
    by (cases xs) simp_all
  ultimately show ?thesis
    by (simp add: broadcast2_def)
qed

lemma SampleAlongLine_exact_instance:
  assumes sep: "set origin \<inter> set direction = {}"
  shows "SampleAlongLine (map v origin) (map v direction) step_size num_steps
         = (map (fst (SampleAlongLine_fl exact_ops (\<lambda>a. Fin (v a)) origin direction
                        (Fin step_size) num_steps)) direction,
            snd (SampleAlongLine_fl exact_ops (\<lambda>a. Fin (v a)) origin direction
                        (Fin step_size) num_steps))"
proof -
  let ?mem = "\<lambda>a. Fin (v a)"
  let ?nrm = "norm_op exact_ops (map ?mem direction)"
  let ?mem' = "\<lambda>a. if a \<in> set direction then div_fl exact_ops (?mem a) ?nrm else ?mem a"
  let ?G = "\<lambda>n og d. add_fl exact_ops og
                     (mul_fl exact_ops (mul_fl exact_ops (of_int_fl exact_ops (int n))
                                                         (Fin step_size)) d)"
  let ?dir = "map (\<lambda>d. fdiv (Fin d) (Fin (linalg_norm (map v direction)))) (map v direction)"
  let ?R = "SampleAlongLine_fl exact_ops ?mem origin direction (Fin step_size) num_steps"
  have nrm: "?nrm = Fin (linalg_norm (map v direction))"
    using norm_op_exact [of "map v direction"] by (simp add: comp_def)
  have o: "map ?mem' origin = map Fin (map v origin)"
    using sep by auto
  have d: "map ?mem' direction = ?dir"
    unfolding nrm by (simp add: comp_def rnd_exact)
  have g: "(\<lambda>x. ?G n (Fin x)) = (\<lambda>og d. fadd (Fin og) (fmul (Fin (real n * step_size)) d))" for n
    by (simp add: add_fl_exact mul_fl_exact of_int_fl_exact rnd_exact)
  have b: "broadcast2 (?G n) (map ?mem' origin) (map ?mem' direction)
           = broadcast2 (\<lambda>og d. fadd (Fin og) (fmul (Fin (real n * step_size)) d))
               (map v origin) ?dir" for n
    by (simp only: o d broadcast2_map_left g)
  have "fst ?R = ?mem'"
    unfolding SampleAlongLine_fl_def Let_def by (simp only: fst_conv)
  then have f: "map (fst ?R) direction = fst (SampleAlongLine (map v origin) (map v direction)
                                               step_size num_steps)"
    unfolding SampleAlongLine_def Let_def by (simp only: fst_conv d)
  have "snd ?R = (case those (map (\<lambda>n. broadcast2 (?G n) (map ?mem' origin) (map ?mem' direction))
                                  [0..<nat num_steps]) of
                    None \<Rightarrow> Inl ValueError
                  | Some locs \<Rightarrow> if locs = [] then Inl ValueError else Inr locs)"
    unfolding SampleAlongLine_fl_def Let_def
    by (simp only: snd_conv exact_ops_sel not_True_eq_False if_False)
  then have r: "snd ?R = snd (SampleAlongLine (map v origin) (map v direction)
                                step_size num_steps)"
    unfolding SampleAlongLine_def Let_def by (simp only: snd_conv b)
  show ?thesis
    by (simp only: f r prod.collapse)
qed

subsection \<open>Discretization and summation\<close>

text \<open>
  C2, as stated, fails: from \<open>0\<close> to \<open>2\<close> in a unit field with one step per pixel there
  are \<open>k = 2\<close> samples and \<open>dx = 2\<close>; the code sums \<open>dx / speed\<close> once per sample and returns
  \<open>4\<close>, not the \<open>k - 1 = 1\<close> term \<open>2\<close>.
\<close>

theorem CalculateTimeOfFlight_pairs_counterexample:
  "CalculateTimeOfFlight [2] [0] \<lparr>shape = [3], entry = (\<lambda>_. 1)\<rparr> 1 = Inr (Fin 4, [1, 1])
   \<and> discretization_count [2] [0] 1 = 2
   \<and> sub_step [2] [0] 1 = Fin 2
   \<and> Fin 4 \<noteq> fsum (map (\<lambda>sp. fdiv (Fin 2) (Fin sp)) (butlast [1, 1]))"
  by (simp add: tof_eval discretization_count_def sub_step_def offsets_def)

text \<open>
  C2, amended. When \<open>CalculateTimeOfFlight\<close> returns, in any float arithmetic: the sample
  count \<open>k\<close> is the integer that \<open>np.round(distance * steps_per_pixel).astype(int)\<close> yields,
  the rounded product itself when that fits int64; \<open>steps\<close> is \<open>np.linspace(0, distance, k)\<close>,
  of \<open>k\<close> offsets, the last of them the distance itself when \<open>k \<ge> 2\<close>; \<open>dx\<close> is the mean of
  the differences of consecutive offsets; there are \<open>k\<close> sampled speeds, the \<open>i\<close>-th being
  the entry of the speed map at the rounded coordinates of
  \<open>origin + steps[i] * direction\<close>, a negative coordinate counted from the end of its axis;
  and the total time is the sum of \<open>dx / speed\<close> over all \<open>k\<close> sampled speeds.
\<close>

theorem CalculateTimeOfFlight_fl_discretization:
  assumes "CalculateTimeOfFlight_fl N q og sm spp = Inr (t, speeds)"
  shows "0 \<le> count_fl N q og spp
       \<and> (\<forall>x. mul_fl N (distance_fl N q og) (of_int_fl N spp) = Fin x
               \<and> - (2 ^ 63) \<le> np_round x \<and> np_round x < 2 ^ 63
               \<longrightarrow> count_fl N q og spp = np_round x)
       \<and> steps_fl N q og spp
           = linspace_fl N (Fin 0) (distance_fl N q og) (nat (count_fl N q og spp))
       \<and> length (steps_fl N q og spp) = nat (count_fl N q og spp)
       \<and> (2 \<le> count_fl N q og spp \<longrightarrow> last (steps_fl N q og spp) = distance_fl N q og)
       \<and> dx_fl N q og spp
           = mean_op N (map2 (sub_fl N) (tl (steps_fl N q og spp)) (butlast (steps_fl N q og spp)))
       \<and> length speeds = nat (count_fl N q og spp)
       \<and> (\<forall>i<nat (count_fl N q og spp).
             speeds ! i = entry sm (map2 (\<lambda>n c. nat (if c < 0 then c + int n else c))
                                         (shape sm) (samples_fl N q og spp ! i))
             \<and> samples_fl N q og spp ! i
                 = map2 (\<lambda>d c. round_astype_int N
                                   (add_fl N (mul_fl N (steps_fl N q og spp ! i) d) c))
                        (direction_fl N q og) og)
       \<and> t = sum_op N (map (\<lambda>sp. div_fl N (dx_fl N q og spp) (Fin sp)) speeds)
       \<and> length (map (\<lambda>sp. div_fl N (dx_fl N q og spp) (Fin sp)) speeds)
           = nat (count_fl N q og spp)"
proof -
  note r = CalculateTimeOfFlight_fl_Inr [OF assms]
  have idx: "index_arrays sm (samples_fl N q og spp) = Some speeds" using r by simp
  have len: "length speeds = nat (count_fl N q og spp)"
    using length_index_arrays [OF idx] by (simp add: length_samples_fl)
  have sp: "speeds = map (\<lambda>p. entry sm (map2 (\<lambda>n c. nat (if c < 0 then c + int n else c))
                                              (shape sm) p)) (samples_fl N q og spp)"
    using idx by (rule index_arrays_Some)
  have nth: "speeds ! i = entry sm (map2 (\<lambda>n c. nat (if c < 0 then c + int n else c))
                                         (shape sm) (samples_fl N q og spp ! i))"
    if "i < nat (count_fl N q og spp)" for i
    using that by (subst sp) (simp add: length_samples_fl)
  have last: "last (steps_fl N q og spp) = distance_fl N q og" if "2 \<le> count_fl N q og spp"
    unfolding steps_fl_def using that by (intro last_linspace_fl) simp
  show ?thesis
    using r len nth last samples_fl_nth [of _ N q og spp] count_fl_in_range [of N q og spp]
    by (simp add: length_steps_fl steps_fl_def [symmetric] dx_fl_def Let_def)
qed

theorem CalculateTimeOfFlight_fl_discretization_witness:
  "count_fl exact_ops [Fin 2] [Fin 0] 1 = 2
   \<and> steps_fl exact_ops [Fin 2] [Fin 0] 1 = [Fin 0, Fin 2]
   \<and> dx_fl exact_ops [Fin 2] [Fin 0] 1 = Fin 2
   \<and> samples_fl exact_ops [Fin 2] [Fin 0] 1 = [[0], [2]]
   \<and> Fin 4 = sum_op exact_ops (map (\<lambda>sp. div_fl exact_ops (dx_fl exact_ops [Fin 2] [Fin 0] 1)
                                          (Fin sp)) [1, 1])"
  using CalculateTimeOfFlight_fl_discretization
          [of exact_ops "[Fin 2]" "[Fin 0]" "\<lparr>shape = [3], entry = (\<lambda>_. 1)\<rparr>" 1 "Fin 4" "[1, 1]"]
  by (simp add: fl_eval)

subsection \<open>Points of the line sampler\<close>




text \<open>
  The model follows the in-place division into an origin that shares its array with the
  direction: line 17 then normalizes the origin too, and the ray from \<open>(3, 4)\<close> in
  direction \<open>(3, 4)\<close> starts at \<open>(0.6, 0.8)\<close>.
\<close>

lemma SampleAlongLine_fl_shared_array:
  "snd (SampleAlongLine_fl exact_ops (\<lambda>a. [Fin 3, Fin 4] ! a) [0, 1] [0, 1] (Fin 1) 1)
   = Inr [[Fin (3 / 5), Fin (4 / 5)]]"
  by (simp add: SampleAlongLine_fl_def Let_def broadcast2_def exact_ops_sel is_fin_def fin_val_def
        linalg_norm_def sqrt_25 of_int_fl_def)

subsection \<open>Index errors\<close>

text \<open>
  C5, as stated, fails: the sample coordinate \<open>- 2\<close> lies outside the index range
  \<open>0 .. 2\<close>, and the call returns the speed at index \<open>1\<close> instead of failing.
\<close>

theorem CalculateTimeOfFlight_wraps_counterexample:
  "CalculateTimeOfFlight [- 2] [0] \<lparr>shape = [3], entry = (\<lambda>idx. real (hd idx) + 1)\<rparr> 1
   = Inr (Fin 3, [1, 2])"
  by (simp add: tof_eval)

text \<open>
  C5, amended. With dimensionalities in agreement, in any float arithmetic,
  \<open>CalculateTimeOfFlight\<close> fails with IndexError exactly when the sample count is not
  negative, there is memory for that many samples, and some rounded sample coordinate \<open>c\<close>
  on an axis of extent \<open>n\<close> has \<open>c < - n\<close> or \<open>n \<le> c\<close>. A coordinate with
  \<open>- n \<le> c < 0\<close> is accepted and reads the entry at \<open>c + n\<close>, so a returned speed
  sequence is computed from the wrapped coordinates.
\<close>

theorem CalculateTimeOfFlight_fl_index_error:
  assumes "length point_query = length point_origin"
    and "length point_origin = length (shape speed_map)"
  shows "(CalculateTimeOfFlight_fl N point_query point_origin speed_map steps_per_pixel
            = Inl IndexError
          \<longleftrightarrow> 0 \<le> count_fl N point_query point_origin steps_per_pixel
              \<and> enough_memory N (length point_origin)
                    (nat (count_fl N point_query point_origin steps_per_pixel))
              \<and> (\<exists>p\<in>set (samples_fl N point_query point_origin steps_per_pixel).
                   \<exists>j<length (shape speed_map).
                     p ! j < - int (shape speed_map ! j) \<or> int (shape speed_map ! j) \<le> p ! j))
       \<and> (\<forall>t speeds.
            CalculateTimeOfFlight_fl N point_query point_origin speed_map steps_per_pixel
              = Inr (t, speeds)
            \<longrightarrow> speeds = map (\<lambda>p. entry speed_map
                                  (map2 (\<lambda>n c. nat (if c < 0 then c + int n else c))
                                        (shape speed_map) p))
                              (samples_fl N point_query point_origin steps_per_pixel))"
proof -
  let ?S = "samples_fl N point_query point_origin steps_per_pixel"
  have len: "min (length (shape speed_map)) (length p) = length (shape speed_map)"
    if "p \<in> set ?S" for p
    using sample_fl_length [OF that] assms by simp
  have none: "index_arrays speed_map ?S = None
        \<longleftrightarrow> (\<exists>p\<in>set ?S. \<exists>j<length (shape speed_map).
                   p ! j < - int (shape speed_map ! j) \<or> int (shape speed_map ! j) \<le> p ! j)"
    unfolding index_arrays_None using len by (auto cong: bex_cong)
  show ?thesis
  proof (cases "index_arrays speed_map ?S")
    case None
    then show ?thesis
      using none assms by (simp add: CalculateTimeOfFlight_fl_def)
  next
    case (Some speeds)
    then show ?thesis
      using none assms index_arrays_Some [OF Some]
      by (auto simp add: CalculateTimeOfFlight_fl_def)
  qed
qed

theorem CalculateTimeOfFlight_fl_index_error_witness:
  "CalculateTimeOfFlight_fl exact_ops [Fin 4] [Fin 2] \<lparr>shape = [3], entry = (\<lambda>_. 1)\<rparr> 1
     = Inl IndexError
   \<and> samples_fl exact_ops [Fin 4] [Fin 2] 1 = [[2], [4]]"
  using CalculateTimeOfFlight_fl_index_error
          [of "[Fin 4]" "[Fin 2]" "\<lparr>shape = [3], entry = (\<lambda>_. 1)\<rparr>" exact_ops 1]
  by (simp add: count_fl_def steps_fl_def samples_fl_def
        direction_fl_def distance_fl_def displacement_fl_def linspace_fl_def round_astype_int_def
        of_int_fl_def exact_ops_sel is_fin_def fin_val_def Let_def linalg_norm_def np_round_def
        upt_rec numeral_nat)

end
